theory Spec2Isabelle
  imports Main "HOL-Library.AList"
begin

section \<open>PHP values\<close>

text \<open>
  The updater (class \<open>Gutestrap_Update\<close>) is PHP. The values it handles are \<open>null\<close>,
  booleans, integers, strings, arrays with string keys and \<open>stdClass\<close> objects. An array keeps
  its keys in insertion order, so it is an association list: \<open>$a[k] = v\<close> is
  \<open>AList.update k v a\<close> (in place when the key exists, appended otherwise) and
  \<open>unset($a[k])\<close> is \<open>AList.delete k a\<close>.
\<close>

datatype php =
    PNull
  | PBool bool
  | PInt int
  | PStr string
  | PArr "(string \<times> php) list"
  | PObj "(string \<times> php) list"

text \<open>\<open>$a[k]\<close> read from an array: a missing key reads as \<open>null\<close> (PHP warns, it does not throw).\<close>

definition idx :: "(string \<times> php) list \<Rightarrow> string \<Rightarrow> php" where
  "idx a k = (case map_of a k of Some v \<Rightarrow> v | None \<Rightarrow> PNull)"

text \<open>\<open>$o->k\<close>: a missing property, or a property of something that is no object, reads as \<open>null\<close>.\<close>

fun read_prop :: "php \<Rightarrow> string \<Rightarrow> php" where
  "read_prop (PObj ps) k = idx ps k"
| "read_prop _ k = PNull"

text \<open>\<open>isset($o->k)\<close>: the property exists and is not \<open>null\<close>.\<close>

definition isset_prop :: "php \<Rightarrow> string \<Rightarrow> bool" where
  "isset_prop obj k = (read_prop obj k \<noteq> PNull)"

text \<open>
  \<open>isset($o->p[k])\<close> for a property \<open>p\<close> that holds an array when it is set: \<open>None\<close> is the
  property not set.
\<close>

fun isset_entry :: "(string \<times> php) list option \<Rightarrow> string \<Rightarrow> bool" where
  "isset_entry None k = False"
| "isset_entry (Some a) k = (idx a k \<noteq> PNull)"

text \<open>\<open>$h[k]\<close> read from an array of strings (the plugin headers), as a PHP value.\<close>

definition header :: "(string \<times> string) list \<Rightarrow> string \<Rightarrow> php" where
  "header h k = (case map_of h k of Some v \<Rightarrow> PStr v | None \<Rightarrow> PNull)"

text \<open>\<open>is_array($v)\<close>.\<close>

fun is_array :: "php \<Rightarrow> bool" where
  "is_array (PArr a) = True"
| "is_array _ = False"

text \<open>
  An \<open>stdClass\<close> object is the list of its properties, and \<open>PObj\<close> makes it a value.
  \<open>to_object v\<close> is the object of the cast \<open>(object) $v\<close>: the entries of an array become
  the properties, an object stays as it is, \<open>null\<close> gives the empty object, and any other
  value becomes the property \<open>scalar\<close>. \<open>$o->k = v\<close> on an object is \<open>AList.update k v\<close>
  on its properties.
\<close>

fun to_object :: "php \<Rightarrow> (string \<times> php) list" where
  "to_object (PArr a) = a"
| "to_object (PObj ps) = ps"
| "to_object PNull = []"
| "to_object v = [(''scalar'', v)]"

section \<open>The host, and the state the hooks change\<close>

text \<open>
  Everything the class reads but does not define is a field of the host: the constants
  \<open>GUTESTRAP_PLUGIN_FILE\<close>, \<open>GUTESTRAP_PLUGIN_BASENAME\<close>, \<open>WP_PLUGIN_DIR\<close> and
  \<open>DIRECTORY_SEPARATOR\<close>, the global \<open>$gutestrap_plugin_data\<close>, the PHP functions
  \<open>version_compare(a, b, '>')\<close>, \<open>dirname\<close> and \<open>sprintf\<close>, and WordPress's
  \<open>get_plugin_data\<close> (the headers it reads at a path; the empty array stands for every
  answer PHP takes as false), \<open>is_plugin_active\<close>, \<open>esc_url\<close>, \<open>__\<close> and the answer of
  \<open>$wp_filesystem->move\<close>. The host answers the same question the same way throughout.
\<close>

record host =
  GUTESTRAP_PLUGIN_FILE :: string
  GUTESTRAP_PLUGIN_BASENAME :: string
  WP_PLUGIN_DIR :: string
  DIRECTORY_SEPARATOR :: string
  gutestrap_plugin_data :: "(string \<times> string) list"
  version_compare_gt :: "php \<Rightarrow> php \<Rightarrow> bool"
  dirname :: "string \<Rightarrow> string"
  sprintf :: "string \<Rightarrow> string list \<Rightarrow> string"
  get_plugin_data :: "string \<Rightarrow> (string \<times> string) list"
  is_plugin_active :: "string \<Rightarrow> bool"
  esc_url :: "string \<Rightarrow> string"
  translate :: "string \<Rightarrow> string \<Rightarrow> string"
  filesystem_move :: "php \<Rightarrow> string \<Rightarrow> bool"

text \<open>
  What a hook changes: the private field \<open>$did_fetch_remote_data\<close> of the singleton, and
  the calls made to the collaborators that act on the world (a retrieval of remote
  metadata, a move of files with the answer it gave, an activation), in order.
\<close>

datatype call =
    Retrieve string
  | Move php string bool
  | Activate string

record state =
  did_fetch_remote_data :: bool
  calls :: "call list"

text \<open>
  The update-check aggregate of the host (the \<open>update_plugins\<close> transient): an object whose
  properties \<open>response\<close>, \<open>checked\<close> and \<open>no_update\<close> hold arrays keyed by plugin
  identifier when they are set; \<open>rest\<close> holds its other properties.
\<close>

record transient =
  response :: "(string \<times> php) list option"
  checked :: "(string \<times> php) list option"
  no_update :: "(string \<times> php) list option"
  rest :: "(string \<times> php) list"

section \<open>The class \<open>Gutestrap_Update\<close>\<close>

definition repo_version_branch :: string where
  "repo_version_branch = ''main''"

definition remote_plugin_endpoint_base :: string where
  "remote_plugin_endpoint_base =
     ''https://raw.githubusercontent.com/Denman-Digital/gutestrap/'' @ repo_version_branch @ ''/''"

text \<open>The array \<open>get_remote_plugin_data\<close> builds from the headers it retrieved.\<close>

definition remote_descriptor :: "host \<Rightarrow> (string \<times> string) list \<Rightarrow> (string \<times> php) list" where
  "remote_descriptor h remote_plugin_data =
     [(''slug'', PStr ''gutestrap''),
      (''plugin'', PStr (GUTESTRAP_PLUGIN_BASENAME h)),
      (''name'', header remote_plugin_data ''Name''),
      (''version'', header remote_plugin_data ''Version''),
      (''new_version'', header remote_plugin_data ''Version''),
      (''url'', header remote_plugin_data ''PluginURI''),
      (''package'', PStr (''https://github.com/Denman-Digital/gutestrap/archive/'' @ repo_version_branch @ ''.zip'')),
      (''requires'', header remote_plugin_data ''RequiresWP''),
      (''require_php'', header remote_plugin_data ''RequiresPHP''),
      (''author'', header remote_plugin_data ''Author''),
      (''icons'', PArr
         [(''2x'', PStr (remote_plugin_endpoint_base @ ''assets/icon-256x256.png'')),
          (''1x'', PStr (remote_plugin_endpoint_base @ ''assets/icon-128x128.png'')),
          (''svg'', PStr (remote_plugin_endpoint_base @ ''assets/icon.svg''))]),
      (''banners'', PArr
         [(''high'', PStr (remote_plugin_endpoint_base @ ''assets/banner-1544x500.jpg'')),
          (''low'', PStr (remote_plugin_endpoint_base @ ''assets/banner-772x250.jpg''))])]"

text \<open>
  \<open>get_remote_plugin_data\<close>: one retrieval, at the endpoint followed by the plugin file;
  \<open>[]\<close> when the answer is false in PHP, the descriptor otherwise.
\<close>

definition get_remote_plugin_data :: "host \<Rightarrow> state \<Rightarrow> (string \<times> php) list \<times> state" where
  "get_remote_plugin_data h s =
     (let path = remote_plugin_endpoint_base @ GUTESTRAP_PLUGIN_FILE h;
          remote_plugin_data = get_plugin_data h path;
          s' = s\<lparr>calls := calls s @ [Retrieve path]\<rparr>
      in if remote_plugin_data = [] then ([], s')
         else (remote_descriptor h remote_plugin_data, s'))"

text \<open>
  \<open>update_plugins_gutestrap_data\<close>: the hook of the filter \<open>update_plugins_gutestrap\<close>. A
  non-empty array is true in PHP; only then the flag is set and the value replaced.
\<close>

definition update_plugins_gutestrap_data :: "host \<Rightarrow> php \<Rightarrow> state \<Rightarrow> php \<times> state" where
  "update_plugins_gutestrap_data h v s =
     (case get_remote_plugin_data h s of
        (data, s') \<Rightarrow>
          if data \<noteq> [] then (PArr data, s'\<lparr>did_fetch_remote_data := True\<rparr>)
          else (v, s'))"

text \<open>
  \<open>modify_plugins_transient\<close>: the hook of \<open>pre_set_site_transient_update_plugins\<close>. The
  installed version is \<open>$gutestrap_plugin_data['Version']\<close>, the remote one
  \<open>$remote_data->new_version\<close>.
\<close>

definition modify_plugins_transient :: "host \<Rightarrow> transient \<Rightarrow> state \<Rightarrow> transient \<times> state" where
  "modify_plugins_transient h transient s =
     (case response transient of
        None \<Rightarrow> (transient, s)
      | Some response_array \<Rightarrow>
          if checked transient \<noteq> None
             \<and> isset_entry (checked transient) (GUTESTRAP_PLUGIN_BASENAME h)
             \<and> isset_entry (no_update transient) (GUTESTRAP_PLUGIN_BASENAME h)
             \<and> \<not> did_fetch_remote_data s
          then
            (case get_remote_plugin_data h s of
               (data, s') \<Rightarrow>
                 let remote_data = PObj (to_object (PArr data)) in
                 if version_compare_gt h (read_prop remote_data ''new_version'')
                      (header (gutestrap_plugin_data h) ''Version'')
                 then
                   (transient
                      \<lparr>response := Some (AList.update (GUTESTRAP_PLUGIN_BASENAME h) remote_data response_array),
                       no_update := map_option (AList.delete (GUTESTRAP_PLUGIN_BASENAME h)) (no_update transient)\<rparr>,
                    s')
                 else (transient, s'))
          else (transient, s))"

text \<open>
  \<open>modify_plugin_details\<close>: the hook of \<open>plugins_api\<close>. \<open>$action\<close> and \<open>$args\<close> default to
  \<open>null\<close>. The value tested by \<open>is_array\<close> is the array \<open>get_remote_plugin_data\<close> returned;
  \<open>object\<close> is \<open>$result\<close> once it has been cast to an object.
\<close>

definition sections :: "host \<Rightarrow> (string \<times> php) list" where
  \<open>sections h =
     [(''description'', header (gutestrap_plugin_data h) ''Description''),
      (''installation'', PStr (sprintf h
         (translate h ''<a href="%s" download>Download the latest release from GitHub</a>, and either install it through the Add New Plugins page in the WordPress admin, or manually extract the contents into your WordPress installations plugin folder.'' ''gutestrap'')
         [esc_url h (''https://github.com/Denman-Digital/gutestrap/archive/'' @ repo_version_branch @ ''.zip'')])),
      (''changelog'', PStr (sprintf h ''<a href="%s">%s</a>''
         [esc_url h ''https://github.com/Denman-Digital/gutestrap/releases'',
          translate h ''Full list of releases'' ''gutestrap'']))]\<close>

definition modify_plugin_details :: "host \<Rightarrow> php \<Rightarrow> php \<Rightarrow> php \<Rightarrow> state \<Rightarrow> php \<times> state" where
  "modify_plugin_details h result action args s =
     (if \<not> isset_prop args ''slug'' \<or> read_prop args ''slug'' \<noteq> PStr ''gutestrap''
         \<or> action \<noteq> PStr ''plugin_information''
      then (result, s)
      else
        (case get_remote_plugin_data h s of
           (data, s') \<Rightarrow>
             let result = PArr data in
             if \<not> is_array result then (result, s')
             else
               let object = to_object result;
                   object = AList.update ''sections'' (PArr (sections h)) object
               in (PObj object, s')))"

text \<open>
  \<open>post_install\<close>: the hook of \<open>upgrader_post_install\<close>, declared
  \<open>post_install(bool $response, array $_hook_extra, array $result): bool\<close>. PHP hands an
  array over by value, so \<open>$result\<close> is the function's own copy. \<open>post_install_frame\<close> runs
  the body (\<open>response_flag\<close> is \<open>$response\<close>) and gives the value returned, the local
  \<open>$result\<close> at the return, and the state; \<open>post_install\<close> is what the caller receives: the
  value returned and the state. The answer of \<open>$wp_filesystem->move\<close> and the value of
  \<open>activate_plugin\<close> are not used by the body.
\<close>

definition post_install_frame ::
  "host \<Rightarrow> bool \<Rightarrow> (string \<times> php) list \<Rightarrow> (string \<times> php) list \<Rightarrow> state
     \<Rightarrow> bool \<times> (string \<times> php) list \<times> state" where
  "post_install_frame h response_flag hook_extra result s =
     (let wasActivated = is_plugin_active h (GUTESTRAP_PLUGIN_BASENAME h) in
      if idx hook_extra ''plugin'' \<noteq> PNull
         \<and> idx hook_extra ''plugin'' = PStr (GUTESTRAP_PLUGIN_BASENAME h)
      then
        let pluginFolder = WP_PLUGIN_DIR h @ DIRECTORY_SEPARATOR h @ dirname h (GUTESTRAP_PLUGIN_BASENAME h);
            source = idx result ''destination'';
            s1 = s\<lparr>calls := calls s @ [Move source pluginFolder (filesystem_move h source pluginFolder)]\<rparr>;
            result' = AList.update ''destination'' (PStr pluginFolder) result;
            s2 = (if wasActivated
                  then s1\<lparr>calls := calls s1 @ [Activate (GUTESTRAP_PLUGIN_BASENAME h)]\<rparr>
                  else s1)
        in (response_flag, result', s2)
      else (response_flag, result, s))"

definition post_install ::
  "host \<Rightarrow> bool \<Rightarrow> (string \<times> php) list \<Rightarrow> (string \<times> php) list \<Rightarrow> state \<Rightarrow> bool \<times> state" where
  "post_install h response_flag hook_extra result s =
     (case post_install_frame h response_flag hook_extra result s of
        (returned, result', s') \<Rightarrow> (returned, s'))"

section \<open>A host to run the hooks on\<close>

text \<open>
  The fields of the host are parameters of every theorem below. To run the hooks on the
  scenarios of the specification they are filled in. \<open>dotted_version_gt\<close> stands in for
  \<open>version_compare(a, b, '>')\<close> on versions written as decimal numbers separated by dots
  (\<open>null\<close> counts as the empty string, which is below every other version);
  \<open>relative_dirname\<close> for \<open>dirname\<close> on a relative path; \<open>format_s\<close> for \<open>sprintf\<close> on a
  format whose only directive is \<open>%s\<close>. The plugin lives at \<open>gutestrap/gutestrap.php\<close>, the
  remote file answers with the headers given, URLs need no escaping and no translation is
  loaded.
\<close>

definition decimal :: "string \<Rightarrow> nat" where
  "decimal ds = foldl (\<lambda>n c. 10 * n + (of_char c - 48)) 0 ds"

fun dot_fields :: "string \<Rightarrow> string list" where
  "dot_fields [] = [[]]"
| "dot_fields (c # cs) =
     (if c = CHR ''.'' then [] # dot_fields cs
      else (case dot_fields cs of [] \<Rightarrow> [[c]] | f # fs \<Rightarrow> (c # f) # fs))"

fun parts_gt :: "nat list \<Rightarrow> nat list \<Rightarrow> bool" where
  "parts_gt [] ys = False"
| "parts_gt (x # xs) [] = True"
| "parts_gt (x # xs) (y # ys) = (y < x \<or> (x = y \<and> parts_gt xs ys))"

fun version_string :: "php \<Rightarrow> string" where
  "version_string (PStr v) = v"
| "version_string _ = []"

definition dotted_version_gt :: "php \<Rightarrow> php \<Rightarrow> bool" where
  "dotted_version_gt a b =
     (let x = version_string a; y = version_string b
      in if x = [] then False
         else if y = [] then True
         else parts_gt (map decimal (dot_fields x)) (map decimal (dot_fields y)))"

definition relative_dirname :: "string \<Rightarrow> string" where
  "relative_dirname p =
     (if CHR ''/'' \<in> set p then rev (tl (dropWhile (\<lambda>c. c \<noteq> CHR ''/'') (rev p))) else ''.'')"

fun format_s :: "string \<Rightarrow> string list \<Rightarrow> string" where
  "format_s [] args = []"
| "format_s [c] args = [c]"
| "format_s (c # d # cs) args =
     (if c = CHR ''%'' \<and> d = CHR ''s''
      then (case args of [] \<Rightarrow> format_s cs [] | a # more_args \<Rightarrow> a @ format_s cs more_args)
      else c # format_s (d # cs) args)"

definition remote_path :: string where
  "remote_path = ''https://raw.githubusercontent.com/Denman-Digital/gutestrap/main/gutestrap.php''"

definition site :: "string \<Rightarrow> (string \<times> string) list \<Rightarrow> bool \<Rightarrow> host" where
  "site installed remote active =
     \<lparr>GUTESTRAP_PLUGIN_FILE = ''gutestrap.php'',
      GUTESTRAP_PLUGIN_BASENAME = ''gutestrap/gutestrap.php'',
      WP_PLUGIN_DIR = ''/var/www/wp-content/plugins'',
      DIRECTORY_SEPARATOR = ''/'',
      gutestrap_plugin_data = [(''Name'', ''Gutestrap''), (''Version'', installed), (''Description'', ''Bootstrap grid blocks'')],
      version_compare_gt = dotted_version_gt,
      dirname = relative_dirname,
      sprintf = format_s,
      get_plugin_data = (\<lambda>path. if path = remote_path then remote else []),
      is_plugin_active = (\<lambda>plugin. active \<and> plugin = ''gutestrap/gutestrap.php''),
      esc_url = (\<lambda>url. url),
      translate = (\<lambda>text domain. text),
      filesystem_move = (\<lambda>source destination. True)\<rparr>"

definition remote_headers :: "string \<Rightarrow> (string \<times> string) list" where
  "remote_headers v =
     [(''Name'', ''Gutestrap''), (''PluginURI'', ''https://github.com/Denman-Digital/gutestrap''),
      (''Version'', v), (''Author'', ''Denman Digital''), (''RequiresWP'', ''5.9''), (''RequiresPHP'', ''7.4'')]"

text \<open>
  What WordPress's \<open>get_plugin_data\<close> answers when the file cannot be read or holds no
  plugin header: it starts from the empty string as the file's text, so every header it
  looks for comes out as the empty string. Among them are the six the class reads. The
  array is not empty, so PHP takes it as true.
\<close>

definition unread_headers :: "(string \<times> string) list" where
  "unread_headers =
     [(''Name'', []), (''PluginURI'', []), (''Version'', []), (''Description'', []),
      (''Author'', []), (''AuthorURI'', []), (''TextDomain'', []), (''DomainPath'', []),
      (''RequiresWP'', []), (''RequiresPHP'', []), (''UpdateURI'', [])]"

definition fresh :: state where
  "fresh = \<lparr>did_fetch_remote_data = False, calls = []\<rparr>"

text \<open>
  An aggregate as the host builds it before the hooks run: the plugin checked at its
  installed version and listed under \<open>no_update\<close>, nothing under \<open>response\<close>.
\<close>

definition pending :: "string \<Rightarrow> transient" where
  "pending installed =
     \<lparr>response = Some [],
      checked = Some [(''gutestrap/gutestrap.php'', PStr installed)],
      no_update = Some [(''gutestrap/gutestrap.php'', PObj [(''slug'', PStr ''gutestrap''), (''new_version'', PStr installed)])],
      rest = [(''last_checked'', PInt 1730624400)]\<rparr>"

section \<open>Reading and writing entries\<close>


lemma idx_delete: "idx (AList.delete k a) k = PNull"
  by (simp add: idx_def delete_conv')


lemma isset_entry_delete: "\<not> isset_entry (map_option (AList.delete k) a) k"
  by (cases a) (simp_all add: idx_delete)

section \<open>Fetching the remote descriptor\<close>

text \<open>
  Claim C6 does not hold of the code in one part. \<open>get_remote_plugin_data\<close> returns the
  empty array only when the answer of \<open>get_plugin_data\<close> is false in PHP. On every other
  answer it returns the descriptor spelled out below: the fixed entries, and the headers
  \<open>Name\<close>, \<open>Version\<close> (twice), \<open>PluginURI\<close>, \<open>RequiresWP\<close>, \<open>RequiresPHP\<close> and \<open>Author\<close> of
  the answer, a header the answer lacks read as \<open>null\<close>. A retrieval that failed is such an
  answer with WordPress's \<open>get_plugin_data\<close>: the array of headers, each the empty string.
  So the guard \<open>if (!$remote_plugin_data) return [];\<close> is not taken after a failed
  retrieval, and the descriptor comes back with empty strings.
\<close>

theorem get_remote_plugin_data_descriptor:
  assumes "get_plugin_data h (remote_plugin_endpoint_base @ GUTESTRAP_PLUGIN_FILE h) = answer"
  shows "fst (get_remote_plugin_data h s) =
     (if answer = [] then []
      else
        [(''slug'', PStr ''gutestrap''),
         (''plugin'', PStr (GUTESTRAP_PLUGIN_BASENAME h)),
         (''name'', header answer ''Name''),
         (''version'', header answer ''Version''),
         (''new_version'', header answer ''Version''),
         (''url'', header answer ''PluginURI''),
         (''package'', PStr ''https://github.com/Denman-Digital/gutestrap/archive/main.zip''),
         (''requires'', header answer ''RequiresWP''),
         (''require_php'', header answer ''RequiresPHP''),
         (''author'', header answer ''Author''),
         (''icons'', PArr
            [(''2x'', PStr ''https://raw.githubusercontent.com/Denman-Digital/gutestrap/main/assets/icon-256x256.png''),
             (''1x'', PStr ''https://raw.githubusercontent.com/Denman-Digital/gutestrap/main/assets/icon-128x128.png''),
             (''svg'', PStr ''https://raw.githubusercontent.com/Denman-Digital/gutestrap/main/assets/icon.svg'')]),
         (''banners'', PArr
            [(''high'', PStr ''https://raw.githubusercontent.com/Denman-Digital/gutestrap/main/assets/banner-1544x500.jpg''),
             (''low'', PStr ''https://raw.githubusercontent.com/Denman-Digital/gutestrap/main/assets/banner-772x250.jpg'')])])"
  using assms
  by (simp add: get_remote_plugin_data_def Let_def remote_descriptor_def
      remote_plugin_endpoint_base_def repo_version_branch_def)

text \<open>
  The failed retrieval: the descriptor returned is not the empty result, its name and its
  versions are the empty string, and \<open>update_plugins_gutestrap_data\<close> sets the flag.
\<close>

theorem get_remote_plugin_data_descriptor_witness:
  "get_plugin_data (site ''2.3.0'' unread_headers True)
       (remote_plugin_endpoint_base @ GUTESTRAP_PLUGIN_FILE (site ''2.3.0'' unread_headers True))
     = unread_headers
   \<and> fst (get_remote_plugin_data (site ''2.3.0'' unread_headers True) fresh) =
        [(''slug'', PStr ''gutestrap''),
         (''plugin'', PStr ''gutestrap/gutestrap.php''),
         (''name'', PStr []),
         (''version'', PStr []),
         (''new_version'', PStr []),
         (''url'', PStr []),
         (''package'', PStr ''https://github.com/Denman-Digital/gutestrap/archive/main.zip''),
         (''requires'', PStr []),
         (''require_php'', PStr []),
         (''author'', PStr []),
         (''icons'', PArr
            [(''2x'', PStr ''https://raw.githubusercontent.com/Denman-Digital/gutestrap/main/assets/icon-256x256.png''),
             (''1x'', PStr ''https://raw.githubusercontent.com/Denman-Digital/gutestrap/main/assets/icon-128x128.png''),
             (''svg'', PStr ''https://raw.githubusercontent.com/Denman-Digital/gutestrap/main/assets/icon.svg'')]),
         (''banners'', PArr
            [(''high'', PStr ''https://raw.githubusercontent.com/Denman-Digital/gutestrap/main/assets/banner-1544x500.jpg''),
             (''low'', PStr ''https://raw.githubusercontent.com/Denman-Digital/gutestrap/main/assets/banner-772x250.jpg'')])]
   \<and> fst (get_remote_plugin_data (site ''2.3.0'' unread_headers True) fresh) \<noteq> []
   \<and> did_fetch_remote_data
        (snd (update_plugins_gutestrap_data (site ''2.3.0'' unread_headers True) (PBool False) fresh))"
proof -
  let ?h = "site ''2.3.0'' unread_headers True"
  have answer: "get_plugin_data ?h (remote_plugin_endpoint_base @ GUTESTRAP_PLUGIN_FILE ?h) = unread_headers"
    by (simp add: site_def remote_path_def remote_plugin_endpoint_base_def repo_version_branch_def)
  have basename: "GUTESTRAP_PLUGIN_BASENAME ?h = ''gutestrap/gutestrap.php''"
    by (simp add: site_def)
  have filled: "unread_headers \<noteq> []"
    by (simp add: unread_headers_def)
  have read: "header unread_headers ''Name'' = PStr []"
    "header unread_headers ''Version'' = PStr []"
    "header unread_headers ''PluginURI'' = PStr []"
    "header unread_headers ''RequiresWP'' = PStr []"
    "header unread_headers ''RequiresPHP'' = PStr []"
    "header unread_headers ''Author'' = PStr []"
    by (simp_all add: header_def unread_headers_def)
  from get_remote_plugin_data_descriptor [OF answer, of fresh] filled
  have descriptor: "fst (get_remote_plugin_data ?h fresh) =
        [(''slug'', PStr ''gutestrap''),
         (''plugin'', PStr ''gutestrap/gutestrap.php''),
         (''name'', PStr []),
         (''version'', PStr []),
         (''new_version'', PStr []),
         (''url'', PStr []),
         (''package'', PStr ''https://github.com/Denman-Digital/gutestrap/archive/main.zip''),
         (''requires'', PStr []),
         (''require_php'', PStr []),
         (''author'', PStr []),
         (''icons'', PArr
            [(''2x'', PStr ''https://raw.githubusercontent.com/Denman-Digital/gutestrap/main/assets/icon-256x256.png''),
             (''1x'', PStr ''https://raw.githubusercontent.com/Denman-Digital/gutestrap/main/assets/icon-128x128.png''),
             (''svg'', PStr ''https://raw.githubusercontent.com/Denman-Digital/gutestrap/main/assets/icon.svg'')]),
         (''banners'', PArr
            [(''high'', PStr ''https://raw.githubusercontent.com/Denman-Digital/gutestrap/main/assets/banner-1544x500.jpg''),
             (''low'', PStr ''https://raw.githubusercontent.com/Denman-Digital/gutestrap/main/assets/banner-772x250.jpg'')])]"
    by (simp add: basename read)
  then have returned: "fst (get_remote_plugin_data ?h fresh) \<noteq> []"
    by simp
  then have flag: "did_fetch_remote_data (snd (update_plugins_gutestrap_data ?h (PBool False) fresh))"
    by (cases "get_remote_plugin_data ?h fresh") (simp add: update_plugins_gutestrap_data_def)
  from answer descriptor returned flag show ?thesis by simp
qed

text \<open>On an answer with data the descriptor carries the data: the remote version \<open>2.4.0\<close>.\<close>

lemma get_remote_plugin_data_with_data:
  "idx (fst (get_remote_plugin_data (site ''2.3.0'' (remote_headers ''2.4.0'') True) fresh)) ''new_version''
     = PStr ''2.4.0''
   \<and> idx (fst (get_remote_plugin_data (site ''2.3.0'' (remote_headers ''2.4.0'') True) fresh)) ''name''
     = PStr ''Gutestrap''"
  by (simp add: get_remote_plugin_data_def Let_def remote_descriptor_def site_def remote_path_def
      remote_plugin_endpoint_base_def repo_version_branch_def remote_headers_def header_def idx_def)

section \<open>The update-check aggregate\<close>

text \<open>
  Two facts about every call of \<open>modify_plugins_transient\<close>. It returns the aggregate and
  the state as they were unless the aggregate has a response container and entries for
  the plugin under \<open>checked\<close> and under \<open>no_update\<close>. And when the aggregate it returns
  differs from the one given, the difference is the entry written under \<open>response\<close> and
  the entry removed from \<open>no_update\<close>.
\<close>

lemma modify_plugins_transient_skips:
  assumes "\<not> (response t \<noteq> None
              \<and> isset_entry (checked t) (GUTESTRAP_PLUGIN_BASENAME h)
              \<and> isset_entry (no_update t) (GUTESTRAP_PLUGIN_BASENAME h))"
  shows "modify_plugins_transient h t s = (t, s)"
  using assms by (auto simp add: modify_plugins_transient_def split: option.splits)

lemma modify_plugins_transient_cases:
  "fst (modify_plugins_transient h t s) = t
   \<or> (\<exists>r obj. response t = Some r
        \<and> isset_entry (no_update t) (GUTESTRAP_PLUGIN_BASENAME h)
        \<and> obj \<noteq> PNull
        \<and> fst (modify_plugins_transient h t s)
            = t\<lparr>response := Some (AList.update (GUTESTRAP_PLUGIN_BASENAME h) obj r),
                no_update := map_option (AList.delete (GUTESTRAP_PLUGIN_BASENAME h)) (no_update t)\<rparr>)"
  by (auto simp add: modify_plugins_transient_def Let_def split: option.splits prod.splits)


text \<open>
  Claim C10. \<open>modify_plugins_transient\<close> returns the aggregate exactly as given (and makes
  no call, and leaves the flag alone) unless the aggregate has a response container and
  holds both an entry under \<open>checked\<close> and an entry under \<open>no_update\<close> for the plugin's
  identifier. A missing response container is one of the cases.
\<close>

theorem modify_plugins_transient_frame:
  assumes "\<not> (response t \<noteq> None
              \<and> isset_entry (checked t) (GUTESTRAP_PLUGIN_BASENAME h)
              \<and> isset_entry (no_update t) (GUTESTRAP_PLUGIN_BASENAME h))"
  shows "modify_plugins_transient h t s = (t, s)"
  using assms by (rule modify_plugins_transient_skips)

theorem modify_plugins_transient_frame_witness:
  "\<not> (response ((pending ''2.3.0'')\<lparr>response := None\<rparr>) \<noteq> None
      \<and> isset_entry (checked ((pending ''2.3.0'')\<lparr>response := None\<rparr>))
           (GUTESTRAP_PLUGIN_BASENAME (site ''2.3.0'' (remote_headers ''2.4.0'') True))
      \<and> isset_entry (no_update ((pending ''2.3.0'')\<lparr>response := None\<rparr>))
           (GUTESTRAP_PLUGIN_BASENAME (site ''2.3.0'' (remote_headers ''2.4.0'') True)))
   \<and> modify_plugins_transient (site ''2.3.0'' (remote_headers ''2.4.0'') True)
        ((pending ''2.3.0'')\<lparr>response := None\<rparr>) fresh
      = ((pending ''2.3.0'')\<lparr>response := None\<rparr>, fresh)"
proof -
  have g: "\<not> (response ((pending ''2.3.0'')\<lparr>response := None\<rparr>) \<noteq> None
      \<and> isset_entry (checked ((pending ''2.3.0'')\<lparr>response := None\<rparr>))
           (GUTESTRAP_PLUGIN_BASENAME (site ''2.3.0'' (remote_headers ''2.4.0'') True))
      \<and> isset_entry (no_update ((pending ''2.3.0'')\<lparr>response := None\<rparr>))
           (GUTESTRAP_PLUGIN_BASENAME (site ''2.3.0'' (remote_headers ''2.4.0'') True)))"
    by simp
  from modify_plugins_transient_frame [OF g] g show ?thesis by blast
qed






text \<open>
  Claim C3. \<open>modify_plugins_transient\<close> is idempotent on the aggregate: called again on the
  aggregate and the state the first call left, with the same host (the same installed
  version and the same remote file), it returns the aggregate the first call returned.
\<close>

theorem modify_plugins_transient_idempotent:
  "fst (modify_plugins_transient h (fst (modify_plugins_transient h t s))
          (snd (modify_plugins_transient h t s)))
   = fst (modify_plugins_transient h t s)"
proof -
  obtain t1 s1 where first: "modify_plugins_transient h t s = (t1, s1)"
    by (cases "modify_plugins_transient h t s")
  have unchanged: "did_fetch_remote_data s1 = did_fetch_remote_data s"
    using first
    by (auto simp add: modify_plugins_transient_def get_remote_plugin_data_def Let_def
        split: option.splits prod.splits if_splits)
  from modify_plugins_transient_cases [of h t s] first
  consider (same) "t1 = t"
    | (marked) "\<not> isset_entry (no_update t1) (GUTESTRAP_PLUGIN_BASENAME h)"
    using isset_entry_delete by auto
  then have "fst (modify_plugins_transient h t1 s1) = t1"
  proof cases
    case same
    have "fst (modify_plugins_transient h t s1) = fst (modify_plugins_transient h t s)"
      using unchanged
      by (auto simp add: modify_plugins_transient_def get_remote_plugin_data_def Let_def
          split: option.splits)
    with same first show ?thesis by simp
  next
    case marked
    then show ?thesis by (simp add: modify_plugins_transient_skips)
  qed
  with first show ?thesis by simp
qed

text \<open>
  Claim C4. When \<open>update_plugins_gutestrap_data\<close> retrieved the remote file with data, it
  has set the flag and made one retrieval; \<open>modify_plugins_transient\<close> called after it
  returns the aggregate and the state as they were, so it makes no retrieval and the
  override is skipped. The two hooks together have made one retrieval.
\<close>

theorem no_second_retrieval:
  assumes "get_plugin_data h (remote_plugin_endpoint_base @ GUTESTRAP_PLUGIN_FILE h) \<noteq> []"
  shows "did_fetch_remote_data (snd (update_plugins_gutestrap_data h v s))
     \<and> calls (snd (update_plugins_gutestrap_data h v s))
         = calls s @ [Retrieve (remote_plugin_endpoint_base @ GUTESTRAP_PLUGIN_FILE h)]
     \<and> modify_plugins_transient h t (snd (update_plugins_gutestrap_data h v s))
         = (t, snd (update_plugins_gutestrap_data h v s))"
  using assms
  by (simp add: update_plugins_gutestrap_data_def get_remote_plugin_data_def Let_def
      remote_descriptor_def modify_plugins_transient_def split: option.splits)

theorem no_second_retrieval_witness:
  "get_plugin_data (site ''2.3.0'' (remote_headers ''2.4.0'') True)
        (remote_plugin_endpoint_base @ GUTESTRAP_PLUGIN_FILE (site ''2.3.0'' (remote_headers ''2.4.0'') True)) \<noteq> []
   \<and> calls (snd (modify_plugins_transient (site ''2.3.0'' (remote_headers ''2.4.0'') True) (pending ''2.3.0'')
        (snd (update_plugins_gutestrap_data (site ''2.3.0'' (remote_headers ''2.4.0'') True) (PBool False) fresh))))
       = [Retrieve remote_path]
   \<and> fst (modify_plugins_transient (site ''2.3.0'' (remote_headers ''2.4.0'') True) (pending ''2.3.0'')
        (snd (update_plugins_gutestrap_data (site ''2.3.0'' (remote_headers ''2.4.0'') True) (PBool False) fresh)))
       = pending ''2.3.0''"
proof -
  have answered: "get_plugin_data (site ''2.3.0'' (remote_headers ''2.4.0'') True)
        (remote_plugin_endpoint_base @ GUTESTRAP_PLUGIN_FILE (site ''2.3.0'' (remote_headers ''2.4.0'') True)) \<noteq> []"
    by (simp add: site_def remote_path_def remote_plugin_endpoint_base_def repo_version_branch_def
        remote_headers_def)
  have path: "remote_plugin_endpoint_base @ GUTESTRAP_PLUGIN_FILE (site ''2.3.0'' (remote_headers ''2.4.0'') True)
      = remote_path"
    by (simp add: site_def remote_path_def remote_plugin_endpoint_base_def repo_version_branch_def)
  from no_second_retrieval [OF answered, of "PBool False" fresh "pending ''2.3.0''"] answered path
  show ?thesis by (simp add: fresh_def)
qed

section \<open>The details view\<close>

text \<open>
  Claim C5 does not hold of the code. When the slug is \<open>gutestrap\<close>, the action is
  \<open>plugin_information\<close> and the retrieval gives nothing, \<open>get_remote_plugin_data\<close> returns
  the empty array; \<open>is_array\<close> is true of it, so the early return is not taken, and
  \<open>modify_plugin_details\<close> returns an object whose only property is \<open>sections\<close>, not the
  empty result of the fetch.
\<close>

theorem details_on_empty_fetch:
  assumes "isset_prop args ''slug''"
    and "read_prop args ''slug'' = PStr ''gutestrap''"
    and "action = PStr ''plugin_information''"
    and "get_plugin_data h (remote_plugin_endpoint_base @ GUTESTRAP_PLUGIN_FILE h) = []"
  shows "fst (get_remote_plugin_data h s) = []
     \<and> fst (modify_plugin_details h result action args s) = PObj [(''sections'', PArr (sections h))]
     \<and> fst (modify_plugin_details h result action args s) \<noteq> PArr (fst (get_remote_plugin_data h s))"
  using assms
  by (simp add: modify_plugin_details_def get_remote_plugin_data_def Let_def)

theorem details_on_empty_fetch_witness:
  "isset_prop (PObj [(''slug'', PStr ''gutestrap'')]) ''slug''
   \<and> read_prop (PObj [(''slug'', PStr ''gutestrap'')]) ''slug'' = PStr ''gutestrap''
   \<and> get_plugin_data (site ''2.3.0'' [] True)
        (remote_plugin_endpoint_base @ GUTESTRAP_PLUGIN_FILE (site ''2.3.0'' [] True)) = []
   \<and> fst (modify_plugin_details (site ''2.3.0'' [] True) (PBool False) (PStr ''plugin_information'')
          (PObj [(''slug'', PStr ''gutestrap'')]) fresh)
       = PObj [(''sections'', PArr (sections (site ''2.3.0'' [] True)))]
   \<and> read_prop (fst (modify_plugin_details (site ''2.3.0'' [] True) (PBool False) (PStr ''plugin_information'')
          (PObj [(''slug'', PStr ''gutestrap'')]) fresh)) ''sections'' \<noteq> PNull"
proof -
  have slug_set: "isset_prop (PObj [(''slug'', PStr ''gutestrap'')]) ''slug''"
    by (simp add: isset_prop_def idx_def)
  have slug: "read_prop (PObj [(''slug'', PStr ''gutestrap'')]) ''slug'' = PStr ''gutestrap''"
    by (simp add: idx_def)
  have failed: "get_plugin_data (site ''2.3.0'' [] True)
        (remote_plugin_endpoint_base @ GUTESTRAP_PLUGIN_FILE (site ''2.3.0'' [] True)) = []"
    by (simp add: site_def)
  from details_on_empty_fetch [where result = "PBool False" and s = fresh, OF slug_set slug refl failed]
  have result: "fst (modify_plugin_details (site ''2.3.0'' [] True) (PBool False) (PStr ''plugin_information'')
          (PObj [(''slug'', PStr ''gutestrap'')]) fresh)
       = PObj [(''sections'', PArr (sections (site ''2.3.0'' [] True)))]"
    by simp
  then have "read_prop (fst (modify_plugin_details (site ''2.3.0'' [] True) (PBool False) (PStr ''plugin_information'')
          (PObj [(''slug'', PStr ''gutestrap'')]) fresh)) ''sections'' \<noteq> PNull"
    by (simp add: idx_def)
  with slug_set slug failed result show ?thesis by simp
qed

section \<open>After the install\<close>

text \<open>
  Claim C7 does not hold of the code in one part. When the item installed is the plugin
  and the plugin was active, \<open>post_install\<close> asks for the move of \<open>$result['destination']\<close>
  to the plugin's folder, asks for the activation and returns the flag it was given. The
  folder is written into the local \<open>$result\<close> only: the caller receives the flag and the
  state, and no descriptor.
\<close>

theorem post_install_own_plugin:
  assumes "idx hook_extra ''plugin'' = PStr (GUTESTRAP_PLUGIN_BASENAME h)"
    and "is_plugin_active h (GUTESTRAP_PLUGIN_BASENAME h)"
  shows "post_install_frame h response_flag hook_extra result s =
       (response_flag,
        AList.update ''destination''
          (PStr (WP_PLUGIN_DIR h @ DIRECTORY_SEPARATOR h @ dirname h (GUTESTRAP_PLUGIN_BASENAME h))) result,
        s\<lparr>calls := calls s @
            [Move (idx result ''destination'')
               (WP_PLUGIN_DIR h @ DIRECTORY_SEPARATOR h @ dirname h (GUTESTRAP_PLUGIN_BASENAME h))
               (filesystem_move h (idx result ''destination'')
                  (WP_PLUGIN_DIR h @ DIRECTORY_SEPARATOR h @ dirname h (GUTESTRAP_PLUGIN_BASENAME h))),
             Activate (GUTESTRAP_PLUGIN_BASENAME h)]\<rparr>)
     \<and> post_install h response_flag hook_extra result s =
       (response_flag,
        s\<lparr>calls := calls s @
            [Move (idx result ''destination'')
               (WP_PLUGIN_DIR h @ DIRECTORY_SEPARATOR h @ dirname h (GUTESTRAP_PLUGIN_BASENAME h))
               (filesystem_move h (idx result ''destination'')
                  (WP_PLUGIN_DIR h @ DIRECTORY_SEPARATOR h @ dirname h (GUTESTRAP_PLUGIN_BASENAME h))),
             Activate (GUTESTRAP_PLUGIN_BASENAME h)]\<rparr>)"
  using assms by (simp add: post_install_def post_install_frame_def Let_def)

text \<open>
  The scenario of the specification: the local \<open>$result\<close> names the plugin's folder when
  the function returns, and what the caller receives is \<open>true\<close> and the two calls made.
\<close>

theorem post_install_own_plugin_witness:
  "idx [(''plugin'', PStr ''gutestrap/gutestrap.php'')] ''plugin''
      = PStr (GUTESTRAP_PLUGIN_BASENAME (site ''2.3.0'' (remote_headers ''2.4.0'') True))
   \<and> is_plugin_active (site ''2.3.0'' (remote_headers ''2.4.0'') True)
        (GUTESTRAP_PLUGIN_BASENAME (site ''2.3.0'' (remote_headers ''2.4.0'') True))
   \<and> post_install_frame (site ''2.3.0'' (remote_headers ''2.4.0'') True) True
        [(''plugin'', PStr ''gutestrap/gutestrap.php'')] [(''destination'', PStr ''/tmp/extract-xyz'')] fresh
      = (True, [(''destination'', PStr ''/var/www/wp-content/plugins/gutestrap'')],
         \<lparr>did_fetch_remote_data = False,
          calls = [Move (PStr ''/tmp/extract-xyz'') ''/var/www/wp-content/plugins/gutestrap'' True,
                   Activate ''gutestrap/gutestrap.php'']\<rparr>)
   \<and> post_install (site ''2.3.0'' (remote_headers ''2.4.0'') True) True
        [(''plugin'', PStr ''gutestrap/gutestrap.php'')] [(''destination'', PStr ''/tmp/extract-xyz'')] fresh
      = (True, \<lparr>did_fetch_remote_data = False,
                calls = [Move (PStr ''/tmp/extract-xyz'') ''/var/www/wp-content/plugins/gutestrap'' True,
                         Activate ''gutestrap/gutestrap.php'']\<rparr>)"
proof -
  let ?h = "site ''2.3.0'' (remote_headers ''2.4.0'') True"
  have own: "idx [(''plugin'', PStr ''gutestrap/gutestrap.php'')] ''plugin'' = PStr (GUTESTRAP_PLUGIN_BASENAME ?h)"
    by (simp add: idx_def site_def)
  have active: "is_plugin_active ?h (GUTESTRAP_PLUGIN_BASENAME ?h)"
    by (simp add: site_def)
  from post_install_own_plugin [where response_flag = True
      and result = "[(''destination'', PStr ''/tmp/extract-xyz'')]" and s = fresh, OF own active]
  have "post_install_frame ?h True [(''plugin'', PStr ''gutestrap/gutestrap.php'')]
          [(''destination'', PStr ''/tmp/extract-xyz'')] fresh
      = (True, [(''destination'', PStr ''/var/www/wp-content/plugins/gutestrap'')],
         \<lparr>did_fetch_remote_data = False,
          calls = [Move (PStr ''/tmp/extract-xyz'') ''/var/www/wp-content/plugins/gutestrap'' True,
                   Activate ''gutestrap/gutestrap.php'']\<rparr>)
     \<and> post_install ?h True [(''plugin'', PStr ''gutestrap/gutestrap.php'')]
          [(''destination'', PStr ''/tmp/extract-xyz'')] fresh
      = (True, \<lparr>did_fetch_remote_data = False,
                calls = [Move (PStr ''/tmp/extract-xyz'') ''/var/www/wp-content/plugins/gutestrap'' True,
                         Activate ''gutestrap/gutestrap.php'']\<rparr>)"
    by (simp add: site_def relative_dirname_def fresh_def idx_def)
  with own active show ?thesis by simp
qed

text \<open>
  Claim C8. \<open>post_install\<close> returns the flag it was given, whatever the item installed,
  the descriptor, the state, and the answer of the move.
\<close>

theorem post_install_returns_flag:
  "fst (post_install h response_flag hook_extra result s) = response_flag"
  by (simp add: post_install_def post_install_frame_def Let_def)

text \<open>On a host whose move fails, the failed move is in the calls and \<open>true\<close> is returned.\<close>

lemma post_install_failed_move:
  "post_install ((site ''2.3.0'' (remote_headers ''2.4.0'') False)\<lparr>filesystem_move := \<lambda>source destination. False\<rparr>)
     True [(''plugin'', PStr ''gutestrap/gutestrap.php'')] [(''destination'', PStr ''/tmp/extract-xyz'')] fresh
   = (True, \<lparr>did_fetch_remote_data = False,
             calls = [Move (PStr ''/tmp/extract-xyz'') ''/var/www/wp-content/plugins/gutestrap'' False]\<rparr>)"
  by (simp add: post_install_def post_install_frame_def Let_def site_def relative_dirname_def
      fresh_def idx_def)

text \<open>
  Claim C9. When the item installed is not the plugin (\<open>$_hook_extra["plugin"]\<close> is not
  set, or is not the plugin's identifier), \<open>post_install\<close> passes through: the flag is
  returned, the local \<open>$result\<close> is the descriptor given, and the state is as it was, so no
  move and no activation was asked for.
\<close>

theorem post_install_other_plugin:
  assumes "idx hook_extra ''plugin'' \<noteq> PStr (GUTESTRAP_PLUGIN_BASENAME h)"
  shows "post_install_frame h response_flag hook_extra result s = (response_flag, result, s)
     \<and> post_install h response_flag hook_extra result s = (response_flag, s)"
  using assms by (simp add: post_install_def post_install_frame_def Let_def)

theorem post_install_other_plugin_witness:
  "idx [(''plugin'', PStr ''akismet/akismet.php'')] ''plugin''
      \<noteq> PStr (GUTESTRAP_PLUGIN_BASENAME (site ''2.3.0'' (remote_headers ''2.4.0'') True))
   \<and> post_install_frame (site ''2.3.0'' (remote_headers ''2.4.0'') True) True
        [(''plugin'', PStr ''akismet/akismet.php'')] [(''destination'', PStr ''/tmp/extract-xyz'')] fresh
      = (True, [(''destination'', PStr ''/tmp/extract-xyz'')], fresh)
   \<and> calls (snd (post_install (site ''2.3.0'' (remote_headers ''2.4.0'') True) True
        [(''plugin'', PStr ''akismet/akismet.php'')] [(''destination'', PStr ''/tmp/extract-xyz'')] fresh)) = []"
proof -
  let ?h = "site ''2.3.0'' (remote_headers ''2.4.0'') True"
  have other: "idx [(''plugin'', PStr ''akismet/akismet.php'')] ''plugin'' \<noteq> PStr (GUTESTRAP_PLUGIN_BASENAME ?h)"
    by (simp add: idx_def site_def)
  from post_install_other_plugin [where response_flag = True
      and result = "[(''destination'', PStr ''/tmp/extract-xyz'')]" and s = fresh, OF other] other
  show ?thesis by (simp add: fresh_def)
qed

end
